theory Spec2Isabelle
  imports Main "HOL-Library.Sublist"
begin

section \<open>Strings and formatting\<close>

text \<open>
  Go strings are byte sequences; they are modelled as \<^typ>\<open>string\<close> (a list of
  8-bit characters). \<open>strings.Contains\<close>, \<open>strings.ContainsRune\<close> for an ASCII rune,
  \<open>strings.ContainsAny\<close> for ASCII sets and \<open>strings.Join\<close> act on bytes.
\<close>

fun strings_Contains :: "string \<Rightarrow> string \<Rightarrow> bool" where
  "strings_Contains [] substr = (substr = [])"
| "strings_Contains (x # xs) substr = (prefix substr (x # xs) \<or> strings_Contains xs substr)"

definition strings_ContainsRune :: "string \<Rightarrow> char \<Rightarrow> bool" where
  "strings_ContainsRune s r = (r \<in> set s)"

definition strings_ContainsAny :: "string \<Rightarrow> string \<Rightarrow> bool" where
  "strings_ContainsAny s chars = list_ex (\<lambda>c. c \<in> set chars) s"

fun strings_Join :: "string list \<Rightarrow> string \<Rightarrow> string" where
  "strings_Join [] sep = []"
| "strings_Join [a] sep = a"
| "strings_Join (a # b # rest) sep = a @ sep @ strings_Join (b # rest) sep"

text \<open>Decimal rendering of integers, as \<open>%d\<close> prints them.\<close>

fun natDigits :: "nat \<Rightarrow> string" where
  "natDigits n =
     (if n < 10 then [char_of (48 + n)]
      else natDigits (n div 10) @ [char_of (48 + n mod 10)])"

declare natDigits.simps [simp del]

definition itoa :: "int \<Rightarrow> string" where
  "itoa i = (if i < 0 then CHR ''-'' # natDigits (nat (- i)) else natDigits (nat i))"

text \<open>
  The operands of \<open>fmt.Sprintf\<close> that occur in the sources: strings, ints, and values
  with a \<open>String()\<close> method (given by the name of their Go type and the text the method
  returns, which is what \<open>fmt\<close> prints for them).
\<close>

datatype fmtarg = ArgString string | ArgInt int | ArgStringer string string

fun argType :: "fmtarg \<Rightarrow> string" where
  "argType (ArgString s) = ''string''"
| "argType (ArgInt i) = ''int''"
| "argType (ArgStringer ty txt) = ty"

fun argValue :: "fmtarg \<Rightarrow> string" where
  "argValue (ArgString s) = s"
| "argValue (ArgInt i) = itoa i"
| "argValue (ArgStringer ty txt) = txt"

fun verbFits :: "char \<Rightarrow> fmtarg \<Rightarrow> bool" where
  "verbFits c (ArgString s) = (c = CHR ''s'' \<or> c = CHR ''v'')"
| "verbFits c (ArgInt i) = (c = CHR ''d'' \<or> c = CHR ''v'')"
| "verbFits c (ArgStringer ty txt) = (c = CHR ''s'' \<or> c = CHR ''v'')"

definition formatArg :: "char \<Rightarrow> fmtarg \<Rightarrow> string" where
  "formatArg c a =
     (if verbFits c a then argValue a
      else ''%!'' @ [c] @ ''('' @ argType a @ ''='' @ argValue a @ '')'')"

text \<open>
  \<open>fmt.Sprintf\<close> for the verbs the sources use (\<open>%s\<close>, \<open>%d\<close>, \<open>%v\<close>) and \<open>%%\<close>,
  without flags, width or precision. A verb with no operand left prints
  \<open>%!verb(MISSING)\<close>, a lone final percent sign prints \<open>%!(NOVERB)\<close>, operands left
  over are listed as \<open>%!(EXTRA type=value, ...)\<close>, and a verb that does not fit its
  operand prints \<open>%!verb(type=value)\<close>. Other verbs that \<open>fmt\<close> accepts (\<open>%q\<close>,
  \<open>%x\<close>, ...) occur nowhere in the sources and are outside this model.
\<close>

fun extraArgs :: "fmtarg list \<Rightarrow> string" where
  "extraArgs [] = []"
| "extraArgs [a] = argType a @ ''='' @ argValue a"
| "extraArgs (a # b # rest) = argType a @ ''='' @ argValue a @ '', '' @ extraArgs (b # rest)"

fun Sprintf :: "string \<Rightarrow> fmtarg list \<Rightarrow> string" where
  "Sprintf [] [] = []"
| "Sprintf [] (a # as) = ''%!(EXTRA '' @ extraArgs (a # as) @ '')''"
| "Sprintf [c] as = (if c = CHR ''%'' then ''%!(NOVERB)'' else c # Sprintf [] as)"
| "Sprintf (c # v # rest) as =
     (if c \<noteq> CHR ''%'' then c # Sprintf (v # rest) as
      else if v = CHR ''%'' then CHR ''%'' # Sprintf rest as
      else (case as of
              [] \<Rightarrow> ''%!'' @ [v] @ ''(MISSING)'' @ Sprintf rest []
            | a # as' \<Rightarrow> formatArg v a @ Sprintf rest as'))"

section \<open>Device descriptors (device\_descriptor.go)\<close>

text \<open>
  \<open>deviceDescriptorType\<close> is a Go \<open>int\<close> with five constants numbered by \<open>iota\<close>
  in the order of their declaration. Any other integer is a value of the type as
  well; the two renderings panic on it.
\<close>

type_synonym deviceDescriptorType = int

definition DeviceAny :: deviceDescriptorType where "DeviceAny = 0"
definition DeviceSerial :: deviceDescriptorType where "DeviceSerial = 1"
definition DeviceUsb :: deviceDescriptorType where "DeviceUsb = 2"
definition DeviceLocal :: deviceDescriptorType where "DeviceLocal = 3"
definition DeviceTransportId :: deviceDescriptorType where "DeviceTransportId = 4"

record DeviceDescriptor =
  descriptorType :: deviceDescriptorType
  serial :: string
  transportId :: string

text \<open>The constructors leave the fields they do not name at Go's zero value.\<close>

definition AnyDevice :: DeviceDescriptor where
  "AnyDevice = \<lparr>descriptorType = DeviceAny, serial = [], transportId = []\<rparr>"

definition AnyUsbDevice :: DeviceDescriptor where
  "AnyUsbDevice = \<lparr>descriptorType = DeviceUsb, serial = [], transportId = []\<rparr>"

definition AnyLocalDevice :: DeviceDescriptor where
  "AnyLocalDevice = \<lparr>descriptorType = DeviceLocal, serial = [], transportId = []\<rparr>"

definition DeviceWithSerial :: "string \<Rightarrow> DeviceDescriptor" where
  "DeviceWithSerial s = \<lparr>descriptorType = DeviceSerial, serial = s, transportId = []\<rparr>"

definition DeviceWithTransportId :: "string \<Rightarrow> DeviceDescriptor" where
  "DeviceWithTransportId tid =
     \<lparr>descriptorType = DeviceTransportId, serial = [], transportId = tid\<rparr>"

text \<open>
  Modelled from the spec: the \<open>String()\<close> method of \<open>deviceDescriptorType\<close> is
  generated by \<open>stringer\<close> (the \<open>go:generate\<close> line of device\_descriptor.go) and is
  not among the sources. The spec says it renders the variant name; \<open>stringer\<close>
  prints the name of the constant, and \<open>deviceDescriptorType(n)\<close> for any other \<open>n\<close>.
\<close>

definition deviceDescriptorType_String :: "deviceDescriptorType \<Rightarrow> string" where
  "deviceDescriptorType_String t =
     (if t = DeviceAny then ''DeviceAny''
      else if t = DeviceSerial then ''DeviceSerial''
      else if t = DeviceUsb then ''DeviceUsb''
      else if t = DeviceLocal then ''DeviceLocal''
      else if t = DeviceTransportId then ''DeviceTransportId''
      else ''deviceDescriptorType('' @ itoa t @ '')'')"

definition typeArg :: "deviceDescriptorType \<Rightarrow> fmtarg" where
  "typeArg t = ArgStringer ''adb.deviceDescriptorType'' (deviceDescriptorType_String t)"

definition DeviceDescriptor_String :: "DeviceDescriptor \<Rightarrow> string" where
  "DeviceDescriptor_String d =
     (if descriptorType d = DeviceSerial
      then Sprintf ''%s[%s]'' [typeArg (descriptorType d), ArgString (serial d)]
      else deviceDescriptorType_String (descriptorType d))"

text \<open>
  A panic is the left summand of the result, with the panic's message; a normal
  return is the right summand.
\<close>

type_synonym 'a panics = "string + 'a"

definition getHostPrefix :: "DeviceDescriptor \<Rightarrow> string panics" where
  "getHostPrefix d =
     (if descriptorType d = DeviceAny then Inr ''host''
      else if descriptorType d = DeviceUsb then Inr ''host-usb''
      else if descriptorType d = DeviceLocal then Inr ''host-local''
      else if descriptorType d = DeviceSerial
        then Inr (Sprintf ''host-serial:%s'' [ArgString (serial d)])
      else if descriptorType d = DeviceTransportId
        then Inr (Sprintf ''host-transport-id:%s'' [ArgString (transportId d)])
      else Inl (Sprintf ''invalid DeviceDescriptorType: %v'' [typeArg (descriptorType d)]))"

definition getTransportDescriptor :: "DeviceDescriptor \<Rightarrow> string panics" where
  "getTransportDescriptor d =
     (if descriptorType d = DeviceAny then Inr ''transport-any''
      else if descriptorType d = DeviceUsb then Inr ''transport-usb''
      else if descriptorType d = DeviceLocal then Inr ''transport-local''
      else if descriptorType d = DeviceSerial
        then Inr (Sprintf ''transport:%s'' [ArgString (serial d)])
      else if descriptorType d = DeviceTransportId
        then Inr (Sprintf ''transport-id:%s'' [ArgString (transportId d)])
      else Inl (Sprintf ''invalid DeviceDescriptorType: %v'' [typeArg (descriptorType d)]))"

section \<open>Errors (the shape of internal/errors, as \<open>wrapClientError\<close> uses it)\<close>

text \<open>
  Modelled from the spec: the package internal/errors is not among the sources. The
  sources name the kinds \<open>errors.ParseError\<close> and \<open>errors.DeviceNotFound\<close> and build
  assertion errors with \<open>errors.AssertionErrorf\<close>; the spec lists further kinds
  (connection failure, status failure, ...), which are \<open>OtherCode\<close> here.
\<close>

datatype ErrCode = AssertionError | ParseError | DeviceNotFound | OtherCode nat

text \<open>
  A Go \<open>error\<close> value is \<open>nil\<close> (\<open>None\<close>) or one of: the library's \<open>*errors.Err\<close>
  with the four fields that \<open>wrapClientError\<close> fills (Code, Message, Cause, Details),
  an \<open>*os.PathError\<close> (Op, Path, Err), a \<open>syscall.Errno\<close>, or any other error, given
  by its text. \<open>Details\<close> holds the client the error came from; the model keeps the
  client's device descriptor.
\<close>

datatype goerror =
    Err ErrCode string "goerror option" "DeviceDescriptor option"
  | PathError string string goerror
  | Errno nat
  | ErrorString string

definition EPIPE :: nat where "EPIPE = 32"

definition ErrShortWrite :: goerror where "ErrShortWrite = ErrorString ''short write''"
definition errInvalidWrite :: goerror where "errInvalidWrite = ErrorString ''invalid write result''"

text \<open>
  Modelled from the spec: \<open>errors.Errorf\<close> and \<open>errors.AssertionErrorf\<close> are not among
  the sources. By the spec an error carries a kind and a message: \<open>Errorf\<close> builds an
  error of the given kind, \<open>AssertionErrorf\<close> one of the assertion kind, each with the
  formatted message and neither cause nor details.
\<close>

definition Errorf :: "ErrCode \<Rightarrow> string \<Rightarrow> fmtarg list \<Rightarrow> goerror" where
  "Errorf code format args = Err code (Sprintf format args) None None"

definition AssertionErrorf :: "string \<Rightarrow> fmtarg list \<Rightarrow> goerror" where
  "AssertionErrorf format args = Err AssertionError (Sprintf format args) None None"

section \<open>Device states (device\_state.go)\<close>

text \<open>
  \<open>DeviceState\<close> is an \<open>int8\<close> whose constants are numbered by \<open>iota\<close>, so
  \<open>StateInvalid\<close> is the zero value of the type. \<open>StateUnauthorized\<close> is used by
  \<open>Device.State\<close>; its declaration is not among the sources (the spec's data model
  lists it as the additional client-only state).
\<close>

datatype DeviceState =
  StateInvalid | StateDisconnected | StateOffline | StateOnline | StateUnauthorized

definition deviceStateStrings :: "string \<rightharpoonup> DeviceState" where
  "deviceStateStrings =
     map_of [([], StateDisconnected), (''offline'', StateOffline), (''device'', StateOnline)]"

text \<open>
  The sources hold two copies of \<open>parseDeviceState\<close>. The first (lines 24 to 27)
  drops the second result of the map lookup, so a missing key gives the zero value
  of \<open>DeviceState\<close>. The second (lines 53 to 60) tests the lookup, logs a missing key
  and returns \<open>StateDisconnected\<close> for it.
\<close>

definition parseDeviceState_first :: "string \<Rightarrow> DeviceState \<times> goerror option" where
  "parseDeviceState_first str =
     (case deviceStateStrings str of
        None \<Rightarrow> (StateInvalid, None)
      | Some state \<Rightarrow> (state, None))"

definition parseDeviceState_second :: "string \<Rightarrow> DeviceState \<times> goerror option" where
  "parseDeviceState_second str =
     (case deviceStateStrings str of
        None \<Rightarrow> (StateDisconnected, None)
      | Some state \<Rightarrow> (state, None))"

section \<open>The connection library, as a scripted double\<close>

text \<open>
  The connection primitives (package wire) are an external collaborator. A
  connection is modelled as a test double: each send and each status read takes its
  outcome from a script (an exhausted script means success), the peer delivers
  \<open>stream\<close> and then closes, and the double records the messages sent and counts the
  calls of \<open>Close\<close>.
\<close>

record conn =
  sendResults :: "goerror option list"
  statusResults :: "goerror option list"
  stream :: string
  streamErr :: "goerror option"
  requests :: "string list"
  closeCalls :: nat

definition SendMessage :: "conn \<Rightarrow> string \<Rightarrow> goerror option \<times> conn" where
  "SendMessage k msg =
     (case sendResults k of
        [] \<Rightarrow> (None, k\<lparr>requests := requests k @ [msg]\<rparr>)
      | r # rs \<Rightarrow> (r, k\<lparr>sendResults := rs, requests := requests k @ [msg]\<rparr>))"

definition ReadStatus :: "conn \<Rightarrow> string \<Rightarrow> goerror option \<times> conn" where
  "ReadStatus k req =
     (case statusResults k of
        [] \<Rightarrow> (None, k)
      | r # rs \<Rightarrow> (r, k\<lparr>statusResults := rs\<rparr>))"


definition Close :: "conn \<Rightarrow> conn" where
  "Close k = k\<lparr>closeCalls := closeCalls k + 1\<rparr>"

text \<open>The server's \<open>Dial\<close> fails with an error or hands out a connection.\<close>

record server =
  Dial :: "goerror + conn"

record Device =
  server :: server
  descriptor :: DeviceDescriptor

text \<open>
  The destination of a copy is a scripted writer: each \<open>Write\<close> takes its result
  (bytes accepted, error) from the script; an exhausted script accepts the whole
  chunk. The source is a reader that returns the given chunks, one per \<open>Read\<close>, and
  then ends with \<open>io.EOF\<close> (\<open>None\<close>) or with an error.
\<close>

record writer =
  writeResults :: "(int \<times> goerror option) list"
  written :: "string list"

record reader =
  chunks :: "string list"
  readErr :: "goerror option"

definition Write :: "writer \<Rightarrow> string \<Rightarrow> (int \<times> goerror option) \<times> writer" where
  "Write d p =
     (case writeResults d of
        [] \<Rightarrow> ((int (length p), None), d\<lparr>written := written d @ [p]\<rparr>)
      | r # rs \<Rightarrow> (r, d\<lparr>writeResults := rs, written := written d @ [take (nat (fst r)) p]\<rparr>))"

datatype Mtime = MtimeOfClose | MtimeAt int

record FileInfo =
  Size :: int
  Perm :: nat
  ModTime :: int

text \<open>
  What the sources call and do not contain, taken as parameters: the \<open>Error()\<close>
  method of error values, \<open>errors.WrapErrf\<close> (which may panic),
  \<open>roundTripSingleResponse\<close> and \<open>sendFile\<close> of the same package, and the operating
  system (\<open>os.Open\<close>, \<open>os.Stat\<close>, \<open>os.Stdin\<close>).
\<close>

record world =
  errorText :: "goerror \<Rightarrow> string"
  WrapErrf :: "goerror option \<Rightarrow> string \<Rightarrow> fmtarg list \<Rightarrow> goerror option panics"
  roundTripSingleResponse :: "server \<Rightarrow> string \<Rightarrow> string \<times> goerror option"
  sendFile :: "conn \<Rightarrow> string \<Rightarrow> nat \<Rightarrow> Mtime \<Rightarrow> goerror + writer"
  osOpen :: "string \<Rightarrow> goerror + reader"
  osStat :: "string \<Rightarrow> goerror + FileInfo"
  osStdin :: reader

text \<open>
  An operation on a connection returns its result (or panics) together with the
  state of the connection that the server handed out, if it handed one out.
\<close>

type_synonym 'a io = "'a panics \<times> conn option"

definition nilDereference :: string where
  "nilDereference = ''runtime error: invalid memory address or nil pointer dereference''"

section \<open>Helpers (src/unnamed/part\_000)\<close>

definition containsWhitespace :: "string \<Rightarrow> bool" where
  "containsWhitespace str = strings_ContainsAny str [CHR '' '', CHR 0x09, CHR 0x0B]"

text \<open>
  \<open>isBlank\<close> matches the regular expression \<open>^\s*$\<close>. In Go's syntax \<open>\s\<close> is the class
  of tab, newline, form feed, carriage return and space, and without flags \<open>^\<close> and
  \<open>$\<close> match only at the two ends of the text: the string matches when every byte of
  it is in the class.
\<close>

definition isSpace :: "char \<Rightarrow> bool" where
  "isSpace c = (c = CHR 0x09 \<or> c = CHR 0x0A \<or> c = CHR 0x0C \<or> c = CHR 0x0D \<or> c = CHR '' '')"

definition isBlank :: "string \<Rightarrow> bool" where
  "isBlank str = list_all isSpace str"

text \<open>
  Every call of \<open>wrapClientError\<close> in the sources passes a \<open>*Device\<close> as client;
  \<open>reflect.TypeOf\<close> of it prints as \<open>*adb.Device\<close>.
\<close>

definition clientType :: string where
  "clientType = ''*adb.Device''"

definition wrapClientError ::
  "world \<Rightarrow> goerror option \<Rightarrow> Device \<Rightarrow> string \<Rightarrow> fmtarg list \<Rightarrow> goerror option panics" where
  "wrapClientError w err client operation args =
     (case err of
        None \<Rightarrow> Inr None
      | Some e \<Rightarrow>
          (case e of
             Err code msg cause details \<Rightarrow>
               Inr (Some (Err code
                 (Sprintf ''error performing %s on %s''
                    [ArgString (Sprintf operation args), ArgStringer ''*reflect.rtype'' clientType])
                 (Some e) (Some (descriptor client))))
           | _ \<Rightarrow> Inl (''err is not a *Err: '' @ errorText w e)))"

section \<open>The device (src/adb\_test.go): the transport session\<close>

text \<open>
  \<open>dialDevice\<close> returns a connection pointer and an error. The pointer is modelled by
  a flag (\<open>True\<close>: the dialed connection, \<open>False\<close>: \<open>nil\<close>); the state of the dialed
  connection is the second component of the result.
\<close>

definition dialDevice :: "world \<Rightarrow> Device \<Rightarrow> (bool \<times> goerror option) io" where
  "dialDevice w c =
     (case Dial (server c) of
        Inl err \<Rightarrow> (Inr (False, Some err), None)
      | Inr k \<Rightarrow>
          (case getTransportDescriptor (descriptor c) of
             Inl p \<Rightarrow> (Inl p, Some k)
           | Inr td \<Rightarrow>
               (let req = Sprintf ''host:%s'' [ArgString td];
                    (err, k1) = SendMessage k req
                in if err \<noteq> None then
                     (let k2 = Close k1
                      in (case WrapErrf w err
                                 (''error connecting to device '' @ [CHR 0x27] @ ''%s'' @ [CHR 0x27])
                                 [ArgStringer ''adb.DeviceDescriptor''
                                    (DeviceDescriptor_String (descriptor c))] of
                            Inl p \<Rightarrow> (Inl p, Some k2)
                          | Inr e \<Rightarrow> (Inr (False, e), Some k2)))
                   else
                     (let (err2, k2) = ReadStatus k1 req
                      in if err2 \<noteq> None then (Inr (False, err2), Some (Close k2))
                         else (Inr (True, None), Some k2)))))"

text \<open>
  \<open>getSyncConn\<close> returns a sync connection (the same connection, reinterpreted by
  \<open>NewSyncConn\<close>) and an error. Its two failure branches return without a call of
  \<open>Close\<close>, as in the source.
\<close>

definition getSyncConn :: "world \<Rightarrow> Device \<Rightarrow> (bool \<times> goerror option) io" where
  "getSyncConn w c =
     (case dialDevice w c of
        (Inl p, ko) \<Rightarrow> (Inl p, ko)
      | (Inr (h, err), ko) \<Rightarrow>
          if err \<noteq> None then (Inr (False, err), ko)
          else (case (h, ko) of
                  (True, Some k) \<Rightarrow>
                    (let (e1, k1) = SendMessage k ''sync:''
                     in if e1 \<noteq> None then (Inr (False, e1), Some k1)
                        else (let (e2, k2) = ReadStatus k1 ''sync''
                              in if e2 \<noteq> None then (Inr (False, e2), Some k2)
                                 else (Inr (True, None), Some k2)))
                | _ \<Rightarrow> (Inl nilDereference, ko)))"

section \<open>The device: the command line\<close>

text \<open>
  The loop over the arguments, with its index. The branch for an argument that
  contains whitespace is empty in the source (its only statement is commented out),
  so it has no effect.
\<close>

fun checkArgs :: "nat \<Rightarrow> string list \<Rightarrow> goerror option" where
  "checkArgs i [] = None"
| "checkArgs i (arg # rest) =
     (if strings_ContainsRune arg (CHR 0x22)
      then Some (Errorf ParseError ''arg at index %d contains an invalid double quote: %s''
                   [ArgInt (int i), ArgString arg])
      else checkArgs (Suc i) rest)"

definition prepareCommandLine :: "string \<Rightarrow> string list \<Rightarrow> string \<times> goerror option" where
  "prepareCommandLine cmd args =
     (if isBlank cmd then ([], Some (AssertionErrorf ''command cannot be empty'' []))
      else (case checkArgs 0 args of
              Some e \<Rightarrow> ([], Some e)
            | None \<Rightarrow>
                (if length args > 0
                 then (Sprintf ''%s %s'' [ArgString cmd, ArgString (strings_Join args '' '')], None)
                 else (cmd, None))))"

section \<open>The device: the operations\<close>

definition withValue :: "'a \<Rightarrow> goerror option panics \<Rightarrow> ('a \<times> goerror option) panics" where
  "withValue v r = (case r of Inl p \<Rightarrow> Inl p | Inr e \<Rightarrow> Inr (v, e))"


definition getAttribute :: "world \<Rightarrow> Device \<Rightarrow> string \<Rightarrow> (string \<times> goerror option) panics" where
  "getAttribute w c attr =
     (case getHostPrefix (descriptor c) of
        Inl p \<Rightarrow> Inl p
      | Inr hp \<Rightarrow>
          (let (resp, err) = roundTripSingleResponse w (server c)
                               (Sprintf ''%s:%s'' [ArgString hp, ArgString attr])
           in if err \<noteq> None then Inr ([], err) else Inr (resp, None)))"

text \<open>
  \<open>State\<close>. The classifier it calls is \<open>parseDeviceState\<close>, of which the sources hold
  two copies; it is the parameter \<open>parse\<close>.
\<close>

definition State ::
  "world \<Rightarrow> (string \<Rightarrow> DeviceState \<times> goerror option) \<Rightarrow> Device \<Rightarrow> (DeviceState \<times> goerror option) panics" where
  "State w parse c =
     (case getAttribute w c ''get-state'' of
        Inl p \<Rightarrow> Inl p
      | Inr (attr, Some e) \<Rightarrow>
          if strings_Contains (errorText w e) ''unauthorized'' then Inr (StateUnauthorized, None)
          else withValue StateInvalid (wrapClientError w (Some e) c ''State'' [])
      | Inr (attr, None) \<Rightarrow>
          (let (state, err) = parse attr
           in withValue state (wrapClientError w err c ''State'' [])))"

definition OpenWrite ::
  "world \<Rightarrow> Device \<Rightarrow> string \<Rightarrow> nat \<Rightarrow> Mtime \<Rightarrow> (writer option \<times> goerror option) io" where
  "OpenWrite w c path perms mtime =
     (case getSyncConn w c of
        (Inl p, ko) \<Rightarrow> (Inl p, ko)
      | (Inr (h, err), ko) \<Rightarrow>
          if err \<noteq> None
          then (withValue None (wrapClientError w err c ''OpenWrite(%s)'' [ArgString path]), ko)
          else (case (h, ko) of
                  (True, Some k) \<Rightarrow>
                    (case sendFile w k path perms mtime of
                       Inl e \<Rightarrow>
                         (withValue None
                            (wrapClientError w (Some e) c ''OpenWrite(%s)'' [ArgString path]), ko)
                     | Inr d \<Rightarrow>
                         (withValue (Some d)
                            (wrapClientError w None c ''OpenWrite(%s)'' [ArgString path]), ko))
                | _ \<Rightarrow> (Inl nilDereference, ko)))"

section \<open>The copy loop\<close>

text \<open>
  \<open>io.Copy\<close>, the generic loop of the Go library: read a chunk, write it, stop at the
  first write error, short write or read error; the end of the source (\<open>io.EOF\<close>) is
  not an error. The writer is a step function on a state, so that the same loop runs
  on the plain destination and on an \<open>io.MultiWriter\<close>.
\<close>

fun ioCopy ::
  "('w \<Rightarrow> string \<Rightarrow> (int \<times> goerror option) \<times> 'w) \<Rightarrow> 'w \<Rightarrow> string list \<Rightarrow> goerror option \<Rightarrow> int
     \<Rightarrow> (int \<times> goerror option) \<times> 'w" where
  "ioCopy wr d [] fin n = ((n, fin), d)"
| "ioCopy wr d (buf # rest) fin n =
     (if buf = [] then ioCopy wr d rest fin n
      else (let ((nw0, ew0), d') = wr d buf;
                nr = int (length buf);
                bad = (nw0 < 0 \<or> nr < nw0);
                nw = (if bad then 0 else nw0);
                ew = (if bad \<and> ew0 = None then Some errInvalidWrite else ew0);
                n' = n + nw
            in if ew \<noteq> None then ((n', ew), d')
               else if nr \<noteq> nw then ((n', Some ErrShortWrite), d')
               else ioCopy wr d' rest fin n'))"

text \<open>
  \<open>io.MultiWriter(dst, second)\<close>: the chunk goes to \<open>dst\<close> first; the second writer
  sees it only when \<open>dst\<close> took it whole. The second writer is the progress bar in
  \<open>copyWithProgressAndStats\<close> (a counter of the bytes it was given) and \<open>bufStats\<close>
  in \<open>copyFile\<close>; both accept every chunk whole.
\<close>

definition multiWrite ::
  "('s \<Rightarrow> string \<Rightarrow> 's) \<Rightarrow> writer \<times> 's \<Rightarrow> string \<Rightarrow> (int \<times> goerror option) \<times> (writer \<times> 's)" where
  "multiWrite second ds p =
     (let ((n, err), d') = Write (fst ds) p
      in if err \<noteq> None then ((n, err), (d', snd ds))
         else if n \<noteq> int (length p) then ((n, Some ErrShortWrite), (d', snd ds))
         else ((int (length p), None), (d', second (snd ds) p)))"

text \<open>
  The test on the error of \<open>io.Copy\<close> that both copy helpers make: an
  \<open>*os.PathError\<close> whose \<open>Err\<close> is the \<open>syscall.Errno\<close> \<open>EPIPE\<close> becomes \<open>nil\<close>.
\<close>

definition pipeClosedAsEOF :: "goerror option \<Rightarrow> goerror option" where
  "pipeClosedAsEOF err =
     (case err of
        Some (PathError opn path (Errno errno)) \<Rightarrow> if errno = EPIPE then None else err
      | _ \<Rightarrow> err)"

text \<open>
  \<open>copyWithProgressAndStats\<close>. The observer \<open>cb\<close> is called only from the callback of
  the progress bar, which an external library runs on its own timer; the model keeps
  whether a bar was made and the count of bytes it was given. The result is the
  error, the bytes copied, the destination and the bar's count (\<open>None\<close>: no bar).
\<close>

definition progressAdd :: "int \<Rightarrow> string \<Rightarrow> int" where
  "progressAdd current p = current + int (length p)"

definition copyWithProgressAndStats ::
  "writer \<Rightarrow> reader \<Rightarrow> int \<Rightarrow> bool \<Rightarrow> bool \<Rightarrow> goerror option \<times> int \<times> writer \<times> int option" where
  "copyWithProgressAndStats dst src sz showProgress cb =
     (if showProgress \<and> sz > 0 \<and> cb
      then (let ((copied, err), (d, current)) =
                  ioCopy (multiWrite progressAdd) (dst, 0) (chunks src) (readErr src) 0
            in (pipeClosedAsEOF err, copied, d, Some current))
      else (let ((copied, err), d) = ioCopy Write dst (chunks src) (readErr src) 0
            in (pipeClosedAsEOF err, copied, d, None)))"

text \<open>
  \<open>copyFile\<close> with \<open>bufStats\<close>: every chunk that reaches \<open>bufStats.Write\<close> adds its
  length to the field \<open>n\<close> and calls the handler with \<open>n\<close> and \<open>total\<close>; the calls
  are recorded in order.
\<close>

record bufStats =
  stats_total :: int
  stats_n :: int
  stats_calls :: "(int \<times> int) list"

definition bufStats_Write :: "bufStats \<Rightarrow> string \<Rightarrow> bufStats" where
  "bufStats_Write b p =
     (let n' = stats_n b + int (length p)
      in b\<lparr>stats_n := n', stats_calls := stats_calls b @ [(n', stats_total b)]\<rparr>)"

definition copyFile :: "writer \<Rightarrow> reader \<Rightarrow> int \<Rightarrow> goerror option \<times> writer \<times> bufStats" where
  "copyFile dst src tot =
     (let ((copied, err), (d, b)) =
            ioCopy (multiWrite bufStats_Write) (dst, \<lparr>stats_total = tot, stats_n = 0, stats_calls = []\<rparr>)
              (chunks src) (readErr src) 0
      in (pipeClosedAsEOF err, d, b))"

section \<open>The device: push\<close>

definition StdIoFilename :: string where
  "StdIoFilename = ''-''"

text \<open>
  \<open>PushWithProgress\<close>, without the watcher of the context (a goroutine that closes
  the writer on cancellation) and without the deferred closes of the local file and
  of the writer, whose effect lies in code outside the sources. \<open>cb\<close> tells whether an
  observer was supplied. The permission bits of standard input are octal 0660.
\<close>

definition pushCopy ::
  "world \<Rightarrow> Device \<Rightarrow> bool \<Rightarrow> string \<Rightarrow> bool \<Rightarrow> reader \<Rightarrow> int \<Rightarrow> nat \<Rightarrow> Mtime \<Rightarrow> goerror option io" where
  "pushCopy w c showProgress remotePath cb localFile sz perms mtime =
     (case OpenWrite w c remotePath perms mtime of
        (Inl p, ko) \<Rightarrow> (Inl p, ko)
      | (Inr (wo, err), ko) \<Rightarrow>
          if err \<noteq> None then (wrapClientError w err c ''PushWithProgress'' [], ko)
          else (case wo of
                  None \<Rightarrow> (Inl nilDereference, ko)
                | Some d \<Rightarrow>
                    (let (err2, copied, d', bar) =
                           copyWithProgressAndStats d localFile sz showProgress cb
                     in if err2 \<noteq> None then (wrapClientError w err2 c ''PushWithProgress'' [], ko)
                        else (Inr None, ko))))"

definition PushWithProgress ::
  "world \<Rightarrow> Device \<Rightarrow> bool \<Rightarrow> string \<Rightarrow> string \<Rightarrow> bool \<Rightarrow> goerror option io" where
  "PushWithProgress w c showProgress localPath remotePath cb =
     (if remotePath = [] then
        (case WrapErrf w None ''error: must specify remote file'' [] of
           Inl p \<Rightarrow> (Inl p, None)
         | Inr e \<Rightarrow> (wrapClientError w e c ''PushWithProgress'' [], None))
      else if localPath = [] \<or> localPath = StdIoFilename then
        pushCopy w c showProgress remotePath cb (osStdin w) 0 432 MtimeOfClose
      else
        (case osOpen w localPath of
           Inl err \<Rightarrow> (wrapClientError w (Some err) c ''PushWithProgress'' [], None)
         | Inr localFile \<Rightarrow>
             (case osStat w localPath of
                Inl err \<Rightarrow> (wrapClientError w (Some err) c ''PushWithProgress'' [], None)
              | Inr info \<Rightarrow>
                  pushCopy w c showProgress remotePath cb localFile
                    (Size info) (Perm info) (MtimeAt (ModTime info)))))"

section \<open>Reading results, and a world for the examples\<close>

text \<open>The \<open>Code\<close> field of an error, when the error is an \<open>*errors.Err\<close>.\<close>

definition errorCode :: "goerror option \<Rightarrow> ErrCode option" where
  "errorCode err =
     (case err of
        Some (Err code msg cause details) \<Rightarrow> Some code
      | _ \<Rightarrow> None)"

definition isErr :: "goerror \<Rightarrow> bool" where
  "isErr e = (case e of Err code msg cause details \<Rightarrow> True | _ \<Rightarrow> False)"

definition panicked :: "'a panics \<Rightarrow> bool" where
  "panicked r = (case r of Inl p \<Rightarrow> True | Inr v \<Rightarrow> False)"

text \<open>
  The parameters of \<^typ>\<open>world\<close> at which the examples are evaluated. The text of an
  error is its message (for a path error: operation, path and the text of the inner
  error); \<open>WrapErrf\<close> keeps \<open>nil\<close>, wraps an \<open>*errors.Err\<close> under its own code and panics
  on any other error; the round trip answers \<open>reply\<close>; \<open>sendFile\<close> hands out a writer
  that accepts everything; the local file system holds no file and standard input is
  empty.
\<close>

fun exampleErrorText :: "goerror \<Rightarrow> string" where
  "exampleErrorText (Err code msg cause details) = msg"
| "exampleErrorText (PathError opn path e) = opn @ '' '' @ path @ '': '' @ exampleErrorText e"
| "exampleErrorText (Errno errno) = ''errno '' @ itoa (int errno)"
| "exampleErrorText (ErrorString s) = s"

definition exampleWrapErrf :: "goerror option \<Rightarrow> string \<Rightarrow> fmtarg list \<Rightarrow> goerror option panics" where
  "exampleWrapErrf cause format args =
     (case cause of
        None \<Rightarrow> Inr None
      | Some (Err code msg c d) \<Rightarrow> Inr (Some (Err code (Sprintf format args) cause None))
      | Some e \<Rightarrow> Inl ''interface conversion: error is not *errors.Err'')"

definition exampleWorld :: "string \<times> goerror option \<Rightarrow> world" where
  "exampleWorld reply =
     \<lparr>errorText = exampleErrorText,
      WrapErrf = exampleWrapErrf,
      roundTripSingleResponse = (\<lambda>s req. reply),
      sendFile = (\<lambda>k path perms mtime. Inr \<lparr>writeResults = [], written = []\<rparr>),
      osOpen = (\<lambda>path. Inl (PathError ''open'' path (Errno 2))),
      osStat = (\<lambda>path. Inl (PathError ''stat'' path (Errno 2))),
      osStdin = \<lparr>chunks = [], readErr = None\<rparr>\<rparr>"

text \<open>A fresh connection with the given scripts and peer output.\<close>

definition freshConn :: "goerror option list \<Rightarrow> goerror option list \<Rightarrow> string \<Rightarrow> conn" where
  "freshConn sends statuses out =
     \<lparr>sendResults = sends, statusResults = statuses, stream = out, streamErr = None,
      requests = [], closeCalls = 0\<rparr>"

definition deviceOn :: "goerror + conn \<Rightarrow> DeviceDescriptor \<Rightarrow> Device" where
  "deviceOn d desc = \<lparr>server = \<lparr>Dial = d\<rparr>, descriptor = desc\<rparr>"

definition networkError :: goerror where
  "networkError = Err (OtherCode 0) ''connection reset'' None None"


text \<open>The error that \<open>io.Copy\<close> returns for a writer and a source.\<close>

definition ioCopyError ::
  "('w \<Rightarrow> string \<Rightarrow> (int \<times> goerror option) \<times> 'w) \<Rightarrow> 'w \<Rightarrow> reader \<Rightarrow> goerror option" where
  "ioCopyError wr d src = snd (fst (ioCopy wr d (chunks src) (readErr src) 0))"

text \<open>The error of a write to a pipe whose reading end is closed, as package os reports it.\<close>

definition brokenPipe :: goerror where
  "brokenPipe = PathError ''write'' ''|1'' (Errno EPIPE)"

section \<open>Properties of the formatting functions\<close>

lemmas descriptorType_defs =
  DeviceAny_def DeviceSerial_def DeviceUsb_def DeviceLocal_def DeviceTransportId_def

lemma Sprintf_no_verb:
  "CHR ''%'' \<notin> set f \<Longrightarrow> Sprintf f [] = f"
  by (induction f "[] :: fmtarg list" rule: Sprintf.induct) auto

lemma Sprintf_no_verb_append:
  "CHR ''%'' \<notin> set p \<Longrightarrow> Sprintf (p @ f) as = p @ Sprintf f as"
proof (induction p)
  case Nil
  show ?case by simp
next
  case (Cons c p)
  then have c: "c \<noteq> CHR ''%''" and p: "CHR ''%'' \<notin> set p" by auto
  show ?case
  proof (cases "p @ f")
    case Nil
    with c Cons.IH [OF p] show ?thesis by simp
  next
    case (Cons v rest)
    with c Cons.IH [OF p] show ?thesis by simp
  qed
qed

lemma Sprintf_final_s:
  "Sprintf ''%s'' [ArgString s] = s"
  by (simp add: formatArg_def)

lemma Sprintf_prefix_s:
  "CHR ''%'' \<notin> set p \<Longrightarrow> Sprintf (p @ ''%s'') [ArgString s] = p @ s"
  by (simp add: Sprintf_no_verb_append formatArg_def)

section \<open>Device descriptors: the two renderings\<close>

text \<open>
  C4. For every device-descriptor variant, \<open>getHostPrefix\<close> and
  \<open>getTransportDescriptor\<close> return exactly the literal strings of the table:
  Any gives host and transport-any, Usb gives host-usb and transport-usb, Local gives
  host-local and transport-local, Serial s gives host-serial: and transport: followed
  by s, TransportId t gives host-transport-id: and transport-id: followed by t. None
  of them panics.
\<close>

theorem descriptor_renderings:
  "getHostPrefix AnyDevice = Inr ''host'' \<and>
   getTransportDescriptor AnyDevice = Inr ''transport-any'' \<and>
   getHostPrefix AnyUsbDevice = Inr ''host-usb'' \<and>
   getTransportDescriptor AnyUsbDevice = Inr ''transport-usb'' \<and>
   getHostPrefix AnyLocalDevice = Inr ''host-local'' \<and>
   getTransportDescriptor AnyLocalDevice = Inr ''transport-local'' \<and>
   getHostPrefix (DeviceWithSerial s) = Inr (''host-serial:'' @ s) \<and>
   getTransportDescriptor (DeviceWithSerial s) = Inr (''transport:'' @ s) \<and>
   getHostPrefix (DeviceWithTransportId t) = Inr (''host-transport-id:'' @ t) \<and>
   getTransportDescriptor (DeviceWithTransportId t) = Inr (''transport-id:'' @ t)"
  unfolding getHostPrefix_def getTransportDescriptor_def
    AnyDevice_def AnyUsbDevice_def AnyLocalDevice_def
    DeviceWithSerial_def DeviceWithTransportId_def
  by (simp add: descriptorType_defs formatArg_def)

section \<open>Device states\<close>

text \<open>
  The second copy of \<open>parseDeviceState\<close> is total, never returns an error and sends
  every token outside the table to \<open>StateDisconnected\<close>.
\<close>

lemma parseDeviceState_second_table:
  "parseDeviceState_second str =
     (if str = [] then StateDisconnected
      else if str = ''offline'' then StateOffline
      else if str = ''device'' then StateOnline
      else StateDisconnected, None)"
  by (simp add: parseDeviceState_second_def deviceStateStrings_def)

lemma parseDeviceState_first_known:
  "parseDeviceState_first [] = (StateDisconnected, None) \<and>
   parseDeviceState_first ''offline'' = (StateOffline, None) \<and>
   parseDeviceState_first ''device'' = (StateOnline, None) \<and>
   snd (parseDeviceState_first str) = None"
  by (simp add: parseDeviceState_first_def deviceStateStrings_def)

text \<open>
  C2. \<open>parseDeviceState\<close> is to send every token outside its table to
  \<open>StateDisconnected\<close>, never to \<open>StateInvalid\<close>. The first copy of the function
  returns \<open>StateInvalid\<close> (and no error) for the token banana: the lookup of a missing
  key gives the zero value of the type.
\<close>

theorem parseDeviceState_first_unknown_token:
  "parseDeviceState_first ''banana'' = (StateInvalid, None)"
  by (simp add: parseDeviceState_first_def deviceStateStrings_def)

section \<open>Wrapped errors\<close>



section \<open>The command line\<close>

lemma checkArgs_None:
  "checkArgs i args = None \<longleftrightarrow> (\<forall>a\<in>set args. CHR 0x22 \<notin> set a)"
  by (induction args arbitrary: i) (auto simp: strings_ContainsRune_def)

lemma checkArgs_Some:
  "checkArgs i args = Some e \<Longrightarrow> errorCode (Some e) = Some ParseError"
  by (induction args arbitrary: i) (auto simp: Errorf_def errorCode_def split: if_splits)

text \<open>
  C5, as the code has it. \<open>prepareCommandLine\<close> fails with an assertion error exactly
  when the command is blank (empty, or made of tab, newline, form feed, carriage
  return and space only); it fails with a parse error exactly when the command is not
  blank and some argument contains a double quote; it succeeds in every other case,
  and then returns the command and the arguments in their order, joined by single
  spaces, with nothing quoted or escaped.
\<close>

theorem prepareCommandLine_cases:
  "(errorCode (snd (prepareCommandLine cmd args)) = Some AssertionError \<longleftrightarrow> isBlank cmd) \<and>
   (errorCode (snd (prepareCommandLine cmd args)) = Some ParseError \<longleftrightarrow>
      \<not> isBlank cmd \<and> (\<exists>a\<in>set args. CHR 0x22 \<in> set a)) \<and>
   (snd (prepareCommandLine cmd args) = None \<longleftrightarrow>
      \<not> isBlank cmd \<and> (\<forall>a\<in>set args. CHR 0x22 \<notin> set a)) \<and>
   (snd (prepareCommandLine cmd args) = None \<longrightarrow>
      fst (prepareCommandLine cmd args) = strings_Join (cmd # args) '' '')"
proof (cases "isBlank cmd")
  case True
  then show ?thesis
    by (simp add: prepareCommandLine_def AssertionErrorf_def errorCode_def)
next
  case False
  show ?thesis
  proof (cases "checkArgs 0 args")
    case None
    then have q: "\<forall>a\<in>set args. CHR 0x22 \<notin> set a"
      by (simp add: checkArgs_None)
    show ?thesis
    proof (cases args)
      case Nil
      with False show ?thesis
        by (simp add: prepareCommandLine_def errorCode_def)
    next
      case (Cons a rest)
      with False None q show ?thesis
        by (simp add: prepareCommandLine_def errorCode_def formatArg_def)
    qed
  next
    case (Some e)
    then have "\<not> (\<forall>a\<in>set args. CHR 0x22 \<notin> set a)"
      using checkArgs_None [of 0 args] by simp
    with False Some checkArgs_Some [OF Some] show ?thesis
      by (simp add: prepareCommandLine_def)
  qed
qed

text \<open>
  The theorem at three inputs: ls with the arguments -l and -a gives ls -l -a; an
  argument with a space is passed through as it is; ls with an argument that holds a
  double quote is a parse error.
\<close>

theorem prepareCommandLine_cases_witness:
  "prepareCommandLine ''ls'' [''-l'', ''-a''] = (''ls -l -a'', None) \<and>
   prepareCommandLine ''ls'' [''my file''] = (''ls my file'', None) \<and>
   errorCode (snd (prepareCommandLine ''ls'' [[CHR ''a'', CHR 0x22, CHR ''b'']])) = Some ParseError"
proof -
  have b: "\<not> isBlank ''ls''"
    by (simp add: isBlank_def isSpace_def)
  have "snd (prepareCommandLine ''ls'' [''-l'', ''-a'']) = None \<and>
        fst (prepareCommandLine ''ls'' [''-l'', ''-a'']) = ''ls -l -a''"
    using prepareCommandLine_cases [of "''ls''" "[''-l'', ''-a'']"] b by simp
  moreover have "snd (prepareCommandLine ''ls'' [''my file'']) = None \<and>
        fst (prepareCommandLine ''ls'' [''my file'']) = ''ls my file''"
    using prepareCommandLine_cases [of "''ls''" "[''my file'']"] b by simp
  moreover have
    "errorCode (snd (prepareCommandLine ''ls'' [[CHR ''a'', CHR 0x22, CHR ''b'']])) = Some ParseError"
    using prepareCommandLine_cases [of "''ls''" "[[CHR ''a'', CHR 0x22, CHR ''b'']]"] b by simp
  ultimately show ?thesis
    by (simp add: prod_eq_iff)
qed

text \<open>
  C5, as stated, fails: a parse error is to be returned if and only if some argument
  contains a double quote. With an empty command and the one argument a, double quote,
  b, the result is the assertion error of the blank command, not a parse error.
\<close>

theorem prepareCommandLine_blank_wins:
  "prepareCommandLine [] [[CHR ''a'', CHR 0x22, CHR ''b'']] =
     ([], Some (Err AssertionError ''command cannot be empty'' None None)) \<and>
   (\<exists>a\<in>set [[CHR ''a'', CHR 0x22, CHR ''b'']]. CHR 0x22 \<in> set a) \<and>
   errorCode (snd (prepareCommandLine [] [[CHR ''a'', CHR 0x22, CHR ''b'']])) \<noteq> Some ParseError"
  by (simp add: prepareCommandLine_def isBlank_def AssertionErrorf_def errorCode_def)

section \<open>The transport session\<close>




text \<open>
  \<open>dialDevice\<close> keeps its half of the discipline: whenever it returns without a
  connection after a successful dial (the send or the status read failed), \<open>Close\<close>
  was called exactly once on the dialed connection; when it returns the connection,
  \<open>Close\<close> was not called.
\<close>

lemma dialDevice_close_count:
  assumes "Dial (server c) = Inr k" and "dialDevice w c = (Inr (h, err), ko)"
  shows "\<exists>k'. ko = Some k' \<and> closeCalls k' = (if h then closeCalls k else closeCalls k + 1)"
  using assms
  by (auto simp: dialDevice_def SendMessage_def ReadStatus_def Close_def Let_def
      split: sum.splits list.splits if_splits prod.splits)

lemma dialDevice_status_failure_example:
  "dialDevice (exampleWorld ([], None))
      (deviceOn (Inr (freshConn [] [Some networkError] [])) AnyDevice) =
     (Inr (False, Some networkError),
      Some ((freshConn [] [] [])\<lparr>requests := [''host:transport-any''], closeCalls := 1\<rparr>))"
  by (simp add: dialDevice_def deviceOn_def freshConn_def AnyDevice_def
      getTransportDescriptor_def descriptorType_defs formatArg_def SendMessage_def ReadStatus_def
      networkError_def Close_def)

text \<open>
  C1. Every failure path of the transport session is to close the dialed connection
  before the error is returned, so that exactly one call of \<open>Close\<close> is seen.
  \<open>getSyncConn\<close> does not: on a connection that accepts the transport request and then
  fails the send of sync: (first equation), or fails the status read after it (second
  equation), it returns the error and the connection has seen no call of \<open>Close\<close>.
\<close>

theorem getSyncConn_leaves_connection_open:
  "getSyncConn (exampleWorld ([], None))
      (deviceOn (Inr (freshConn [None, Some networkError] [] [])) AnyDevice) =
     (Inr (False, Some networkError),
      Some ((freshConn [] [] [])\<lparr>requests := [''host:transport-any'', ''sync:''], closeCalls := 0\<rparr>))
   \<and> getSyncConn (exampleWorld ([], None))
      (deviceOn (Inr (freshConn [] [None, Some networkError] [])) AnyDevice) =
     (Inr (False, Some networkError),
      Some ((freshConn [] [] [])\<lparr>requests := [''host:transport-any'', ''sync:''], closeCalls := 0\<rparr>))"
  by (simp add: getSyncConn_def dialDevice_def deviceOn_def freshConn_def AnyDevice_def
      getTransportDescriptor_def descriptorType_defs formatArg_def SendMessage_def ReadStatus_def
      networkError_def)

section \<open>Shell execution\<close>



section \<open>The state query\<close>




text \<open>
  A fetch error of another type without the word in its text makes \<open>State\<close> panic,
  through \<open>wrapClientError\<close>.
\<close>

lemma State_panics_on_foreign_error:
  assumes "getAttribute w c ''get-state'' = Inr (a, Some e)"
    and "\<not> strings_Contains (errorText w e) ''unauthorized''" and "\<not> isErr e"
  shows "panicked (State w parse c)"
  using assms
  by (cases e) (simp_all add: State_def withValue_def wrapClientError_def isErr_def panicked_def)

section \<open>Panics of the error wrapper\<close>

lemma wrapClientError_nil_iff:
  "wrapClientError w err c operation args = Inr None \<longleftrightarrow> err = None"
  by (simp add: wrapClientError_def split: option.splits goerror.splits)

lemma wrapClientError_panics:
  "\<not> isErr e \<Longrightarrow> panicked (wrapClientError w (Some e) c operation args)"
  by (cases e) (simp_all add: wrapClientError_def isErr_def panicked_def)

lemma PushWithProgress_open_fails:
  assumes "remotePath \<noteq> []" and "localPath \<noteq> []" and "localPath \<noteq> StdIoFilename"
    and "\<not> isErr e"
    and "osOpen w localPath = Inl e \<or> (\<exists>f. osOpen w localPath = Inr f) \<and> osStat w localPath = Inl e"
  shows "panicked (fst (PushWithProgress w c showProgress localPath remotePath cb))"
  using assms wrapClientError_panics [OF assms(4), of w c "''PushWithProgress''" "[]"]
  by (auto simp: PushWithProgress_def)

text \<open>
  C10. \<open>wrapClientError\<close> returns \<open>nil\<close> exactly when its error argument is \<open>nil\<close>, and
  it panics on every error that is not an \<open>*errors.Err\<close>. So \<open>PushWithProgress\<close>,
  called with a remote path and a local path (not standard input) whose \<open>os.Open\<close> or
  \<open>os.Stat\<close> fails with an error of the operating system, panics instead of
  returning an error.
\<close>

theorem wrapClientError_nil_and_panic:
  "(wrapClientError w err c operation args = Inr None \<longleftrightarrow> err = None) \<and>
   (\<forall>e. err = Some e \<and> \<not> isErr e \<longrightarrow> panicked (wrapClientError w err c operation args)) \<and>
   (\<forall>e. remotePath \<noteq> [] \<and> localPath \<noteq> [] \<and> localPath \<noteq> StdIoFilename \<and> \<not> isErr e \<and>
        (osOpen w localPath = Inl e \<or>
         (\<exists>f. osOpen w localPath = Inr f) \<and> osStat w localPath = Inl e) \<longrightarrow>
        panicked (fst (PushWithProgress w c showProgress localPath remotePath cb)))"
proof (intro conjI allI impI)
  show "(wrapClientError w err c operation args = Inr None) = (err = None)"
    by (rule wrapClientError_nil_iff)
next
  fix e assume "err = Some e \<and> \<not> isErr e"
  then show "panicked (wrapClientError w err c operation args)"
    by (simp add: wrapClientError_panics)
next
  fix e
  assume a: "remotePath \<noteq> [] \<and> localPath \<noteq> [] \<and> localPath \<noteq> StdIoFilename \<and> \<not> isErr e \<and>
        (osOpen w localPath = Inl e \<or>
         (\<exists>f. osOpen w localPath = Inr f) \<and> osStat w localPath = Inl e)"
  show "panicked (fst (PushWithProgress w c showProgress localPath remotePath cb))"
    by (rule PushWithProgress_open_fails [of remotePath localPath e w]) (use a in simp_all)
qed

theorem wrapClientError_nil_and_panic_witness:
  "\<not> isErr (PathError ''open'' ''/no/such/file'' (Errno 2)) \<and>
   wrapClientError (exampleWorld ([], None)) (Some (PathError ''open'' ''/no/such/file'' (Errno 2)))
      (deviceOn (Inl networkError) AnyDevice) ''PushWithProgress'' [] =
     Inl ''err is not a *Err: open /no/such/file: errno 2'' \<and>
   panicked (fst (PushWithProgress (exampleWorld ([], None)) (deviceOn (Inl networkError) AnyDevice)
      True ''/no/such/file'' ''/sdcard/file'' True))"
proof -
  let ?w = "exampleWorld ([], None)"
  let ?e = "PathError ''open'' ''/no/such/file'' (Errno 2)"
  have n: "\<not> isErr ?e" by (simp add: isErr_def)
  have o: "osOpen ?w ''/no/such/file'' = Inl ?e" by (simp add: exampleWorld_def)
  have "panicked (fst (PushWithProgress ?w (deviceOn (Inl networkError) AnyDevice)
      True ''/no/such/file'' ''/sdcard/file'' True))"
    using wrapClientError_nil_and_panic
      [where w = ?w and remotePath = "''/sdcard/file''" and localPath = "''/no/such/file''"
         and showProgress = True and cb = True and c = "deviceOn (Inl networkError) AnyDevice"] n o
    by (simp add: StdIoFilename_def)
  moreover have i: "itoa 2 = ''2''" by code_simp
  have "wrapClientError ?w (Some ?e)
      (deviceOn (Inl networkError) AnyDevice) ''PushWithProgress'' [] =
     Inl ''err is not a *Err: open /no/such/file: errno 2''"
    by (simp add: wrapClientError_def exampleWorld_def i)
  ultimately show ?thesis using n by simp
qed

section \<open>The copy helpers\<close>

lemma pipeClosedAsEOF_None_iff:
  "pipeClosedAsEOF e = None \<longleftrightarrow>
     e = None \<or> (\<exists>opn path. e = Some (PathError opn path (Errno EPIPE)))"
  by (auto simp: pipeClosedAsEOF_def split: option.splits goerror.splits)

lemma pipeClosedAsEOF_Some:
  "pipeClosedAsEOF e \<noteq> None \<Longrightarrow> pipeClosedAsEOF e = e"
  by (auto simp: pipeClosedAsEOF_def split: option.splits goerror.splits if_splits)

lemma copyWithProgressAndStats_error:
  "fst (copyWithProgressAndStats dst src sz showProgress cb) =
     pipeClosedAsEOF
       (if showProgress \<and> sz > 0 \<and> cb then ioCopyError (multiWrite progressAdd) (dst, 0) src
        else ioCopyError Write dst src)"
  by (simp add: copyWithProgressAndStats_def ioCopyError_def split: prod.splits)

lemma copyFile_error:
  "fst (copyFile dst src tot) =
     pipeClosedAsEOF
       (ioCopyError (multiWrite bufStats_Write)
          (dst, \<lparr>stats_total = tot, stats_n = 0, stats_calls = []\<rparr>) src)"
  by (simp add: copyFile_def ioCopyError_def split: prod.splits)

text \<open>
  C6, as the code has it. Each copy helper returns \<open>nil\<close> exactly when \<open>io.Copy\<close>
  returned \<open>nil\<close> or an \<open>*os.PathError\<close> whose \<open>Err\<close> is the \<open>syscall.Errno\<close> \<open>EPIPE\<close>;
  every other error of \<open>io.Copy\<close> is returned as it is. This holds for
  \<open>copyWithProgressAndStats\<close>, with and without the progress bar, and for \<open>copyFile\<close>.
\<close>

theorem copy_helpers_pipe_closed:
  "(fst (copyWithProgressAndStats dst src sz showProgress cb) = None \<longleftrightarrow>
      (let e = (if showProgress \<and> sz > 0 \<and> cb
                then ioCopyError (multiWrite progressAdd) (dst, 0) src
                else ioCopyError Write dst src)
       in e = None \<or> (\<exists>opn path. e = Some (PathError opn path (Errno EPIPE))))) \<and>
   (fst (copyWithProgressAndStats dst src sz showProgress cb) \<noteq> None \<longrightarrow>
      fst (copyWithProgressAndStats dst src sz showProgress cb) =
        (if showProgress \<and> sz > 0 \<and> cb
         then ioCopyError (multiWrite progressAdd) (dst, 0) src
         else ioCopyError Write dst src)) \<and>
   (fst (copyFile dst src tot) = None \<longleftrightarrow>
      (let e = ioCopyError (multiWrite bufStats_Write)
                 (dst, \<lparr>stats_total = tot, stats_n = 0, stats_calls = []\<rparr>) src
       in e = None \<or> (\<exists>opn path. e = Some (PathError opn path (Errno EPIPE))))) \<and>
   (fst (copyFile dst src tot) \<noteq> None \<longrightarrow>
      fst (copyFile dst src tot) =
        ioCopyError (multiWrite bufStats_Write)
          (dst, \<lparr>stats_total = tot, stats_n = 0, stats_calls = []\<rparr>) src)"
  unfolding copyWithProgressAndStats_error copyFile_error Let_def
  using pipeClosedAsEOF_None_iff pipeClosedAsEOF_Some by blast

text \<open>
  The theorem at a destination whose first write fails: with the broken pipe of
  package os both helpers succeed; with an input/output error (errno 5) in the same
  wrapper the error is returned.
\<close>

theorem copy_helpers_pipe_closed_witness:
  "fst (copyWithProgressAndStats \<lparr>writeResults = [(0, Some brokenPipe)], written = []\<rparr>
          \<lparr>chunks = [''abc''], readErr = None\<rparr> 3 True True) = None \<and>
   fst (copyFile \<lparr>writeResults = [(0, Some brokenPipe)], written = []\<rparr>
          \<lparr>chunks = [''abc''], readErr = None\<rparr> 3) = None \<and>
   fst (copyWithProgressAndStats
          \<lparr>writeResults = [(0, Some (PathError ''write'' ''|1'' (Errno 5)))], written = []\<rparr>
          \<lparr>chunks = [''abc''], readErr = None\<rparr> 3 True True) =
     Some (PathError ''write'' ''|1'' (Errno 5))"
proof -
  let ?src = "\<lparr>chunks = [''abc''], readErr = None\<rparr>"
  let ?d = "\<lparr>writeResults = [(0, Some brokenPipe)], written = []\<rparr>"
  let ?d5 = "\<lparr>writeResults = [(0, Some (PathError ''write'' ''|1'' (Errno 5)))], written = []\<rparr>"
  have a: "ioCopyError (multiWrite progressAdd) (?d, 0) ?src = Some brokenPipe"
    by (simp add: ioCopyError_def multiWrite_def Write_def)
  have b: "ioCopyError (multiWrite bufStats_Write)
             (?d, \<lparr>stats_total = 3, stats_n = 0, stats_calls = []\<rparr>) ?src = Some brokenPipe"
    by (simp add: ioCopyError_def multiWrite_def Write_def)
  have c: "ioCopyError (multiWrite progressAdd) (?d5, 0) ?src =
             Some (PathError ''write'' ''|1'' (Errno 5))"
    by (simp add: ioCopyError_def multiWrite_def Write_def)
  have e: "fst (copyWithProgressAndStats ?d5 ?src 3 True True) \<noteq> None"
    using copy_helpers_pipe_closed [of ?d5 ?src 3 True True] c by (simp add: EPIPE_def)
  show ?thesis
    using copy_helpers_pipe_closed [of ?d ?src 3 True True 3]
      copy_helpers_pipe_closed [of ?d5 ?src 3 True True] a b c e
    by (simp add: brokenPipe_def)
qed

text \<open>
  C6, as stated, fails: the helpers are to return \<open>nil\<close> whenever \<open>io.Copy\<close> fails with
  \<open>EPIPE\<close>. A destination whose write fails with the bare \<open>syscall.Errno\<close> \<open>EPIPE\<close>
  makes \<open>io.Copy\<close> fail with \<open>EPIPE\<close>, and both helpers return that error (with the
  progress bar, without it, and in \<open>copyFile\<close>).
\<close>

theorem bare_EPIPE_is_returned:
  "fst (copyWithProgressAndStats \<lparr>writeResults = [(0, Some (Errno EPIPE))], written = []\<rparr>
          \<lparr>chunks = [''abc''], readErr = None\<rparr> 3 True True) = Some (Errno EPIPE) \<and>
   fst (copyWithProgressAndStats \<lparr>writeResults = [(0, Some (Errno EPIPE))], written = []\<rparr>
          \<lparr>chunks = [''abc''], readErr = None\<rparr> 0 False False) = Some (Errno EPIPE) \<and>
   fst (copyFile \<lparr>writeResults = [(0, Some (Errno EPIPE))], written = []\<rparr>
          \<lparr>chunks = [''abc''], readErr = None\<rparr> 3) = Some (Errno EPIPE)"
  by (simp add: copyWithProgressAndStats_def copyFile_def multiWrite_def Write_def
      pipeClosedAsEOF_def)

section \<open>Progress\<close>

text \<open>
  What the sources decide about the progress of a push. Without a positive size, with
  progress switched off or without an observer, no progress bar is made (so the
  observer is never installed) and the copy is the plain copy to the destination.
  When a bar is made, the count of bytes it was given never exceeds the bytes copied
  and equals them when \<open>io.Copy\<close> returns no error. The calls of the observer
  themselves are made by the timer of the external progress bar and are not part of
  this model.
\<close>

lemma copyWithProgressAndStats_no_bar:
  "\<not> (showProgress \<and> sz > 0 \<and> cb) \<Longrightarrow>
   copyWithProgressAndStats dst src sz showProgress cb =
     (let ((copied, err), d) = ioCopy Write dst (chunks src) (readErr src) 0
      in (pipeClosedAsEOF err, copied, d, None))"
  by (auto simp: copyWithProgressAndStats_def)

lemma progress_count:
  "ioCopy (multiWrite progressAdd) (d, c0) cs fin n0 = ((n1, err), (d', c1)) \<Longrightarrow>
   c1 - c0 \<le> n1 - n0 \<and> c0 \<le> c1 \<and> (err = None \<longrightarrow> c1 - c0 = n1 - n0)"
proof (induction cs arbitrary: d c0 n0)
  case Nil
  then show ?case by simp
next
  case (Cons buf rest)
  show ?case
  proof (cases "buf = []")
    case True
    with Cons.prems
    have "ioCopy (multiWrite progressAdd) (d, c0) rest fin n0 = ((n1, err), (d', c1))"
      by simp
    from Cons.IH [OF this] show ?thesis .
  next
    case False
    obtain nw ew dw cw where w: "multiWrite progressAdd (d, c0) buf = ((nw, ew), (dw, cw))"
      by (metis prod.exhaust)
    show ?thesis
    proof (cases "ew = None \<and> nw = int (length buf)")
      case True
      then have cw: "cw = c0 + int (length buf)"
        using w by (auto simp: multiWrite_def progressAdd_def Let_def split: prod.splits if_splits)
      from Cons.prems False w True
      have "ioCopy (multiWrite progressAdd) (dw, cw) rest fin (n0 + int (length buf)) =
              ((n1, err), (d', c1))"
        by simp
      from Cons.IH [OF this] cw show ?thesis by auto
    next
      case stop: False
      have cw: "cw = c0"
        using w stop
        by (auto simp: multiWrite_def progressAdd_def Let_def split: prod.splits if_splits)
      from Cons.prems False w stop cw show ?thesis
        by (auto simp: Let_def split: if_splits)
    qed
  qed
qed

lemma copyWithProgressAndStats_bar_count:
  assumes "showProgress \<and> sz > 0 \<and> cb"
    and "copyWithProgressAndStats dst src sz showProgress cb = (err, copied, d, bar)"
    and "ioCopyError (multiWrite progressAdd) (dst, 0) src = None"
  shows "bar = Some copied"
proof -
  obtain n1 e d' c1 where r:
    "ioCopy (multiWrite progressAdd) (dst, 0) (chunks src) (readErr src) 0 = ((n1, e), (d', c1))"
    by (metis prod.exhaust)
  from r assms(3) have "e = None" by (simp add: ioCopyError_def)
  with progress_count [OF r] have "c1 = n1" by simp
  with assms(1,2) r show ?thesis by (auto simp: copyWithProgressAndStats_def)
qed

end
